theory Spec2Isabelle
  imports Complex_Main "HOL-Library.Word" "HOL-Library.Log_Nat" "HOL-Library.Sublist" "HOL-Library.AList"
begin

unbundle bit_operations_syntax

section \<open>Python values\<close>

text \<open>
  The exceptions the modelled code can raise. A function of the source that can raise
  returns \<open>py_error + 'a\<close>, with \<open>Inl\<close> for the exception.
\<close>

datatype py_error = IndexError | KeyError | TypeError | ValueError | OverflowError

text \<open>
  A Python \<open>float\<close>: a finite double is represented by the rational number it denotes
  (so \<open>0.0\<close> and \<open>-0.0\<close> are both \<open>Fin 0\<close>); the three special values are their own
  constructors. \<open>json.loads\<close> produces them for \<open>Infinity\<close>, \<open>-Infinity\<close>, \<open>NaN\<close>
  and for literals beyond the double range.
\<close>

datatype pyfloat = Fin rat | PosInf | NegInf | NaN

text \<open>
  What \<open>json.load\<close> returns: \<open>None\<close>, \<open>bool\<close>, \<open>int\<close> (unbounded), \<open>float\<close>,
  \<open>str\<close>, \<open>list\<close> and \<open>dict\<close> with string keys. \<open>JDict\<close> holds the items of the dict
  in insertion order; a Python dict has each key once.
\<close>

datatype json =
    JNull
  | JBool bool
  | JInt int
  | JFloat pyfloat
  | JStr string
  | JList "json list"
  | JDict "(string \<times> json) list"

text \<open>
  \<open>isinstance(x, int)\<close>: in Python \<open>bool\<close> is a subclass of \<open>int\<close>, \<open>True\<close> is 1
  and \<open>False\<close> is 0. \<open>int_of x\<close> is the integer \<open>x\<close> is, when it is one.
\<close>

fun int_of :: "json \<Rightarrow> int option" where
  "int_of (JBool b) = Some (if b then 1 else 0)"
| "int_of (JInt n) = Some n"
| "int_of _ = None"

fun str_of :: "json \<Rightarrow> string option" where
  "str_of (JStr s) = Some s"
| "str_of _ = None"

fun list_of :: "json \<Rightarrow> json list option" where
  "list_of (JList xs) = Some xs"
| "list_of _ = None"

fun dict_of :: "json \<Rightarrow> (string \<times> json) list option" where
  "dict_of (JDict kvs) = Some kvs"
| "dict_of _ = None"

text \<open>\<open>isinstance(x, (int, float))\<close>, \<open>isinstance(x, str)\<close>, \<open>isinstance(x, list)\<close>.\<close>

fun is_number :: "json \<Rightarrow> bool" where
  "is_number (JBool _) = True"
| "is_number (JInt _) = True"
| "is_number (JFloat _) = True"
| "is_number _ = False"

fun is_str :: "json \<Rightarrow> bool" where
  "is_str (JStr _) = True"
| "is_str _ = False"

fun is_list :: "json \<Rightarrow> bool" where
  "is_list (JList _) = True"
| "is_list _ = False"

text \<open>\<open>x == k\<close> for an integer constant \<open>k\<close>: numbers compare by value, all else differs.\<close>

fun py_eq_int :: "json \<Rightarrow> int \<Rightarrow> bool" where
  "py_eq_int (JBool b) k = ((if b then 1 else 0) = k)"
| "py_eq_int (JInt n) k = (n = k)"
| "py_eq_int (JFloat (Fin r)) k = (r = of_int k)"
| "py_eq_int _ k = False"

text \<open>
  \<open>xs[i]\<close> on a list: a negative index counts from the end, and an index outside
  the list raises \<open>IndexError\<close>.
\<close>

definition py_index :: "'a list \<Rightarrow> int \<Rightarrow> py_error + 'a" where
  "py_index xs i =
     (if 0 \<le> i \<and> i < int (length xs) then Inr (xs ! nat i)
      else if i < 0 \<and> - i \<le> int (length xs) then Inr (xs ! nat (int (length xs) + i))
      else Inl IndexError)"

section \<open>The identifier table of a document\<close>

text \<open>
  \<open>parse_animation_clip\<close>, the first lines:
  \<^verbatim>\<open>
  uuids: List[str] = []
  if isinstance(data, list) and len(data) > 1 and isinstance(data[1], list):
      uuids = [u for u in data[1] if isinstance(u, str)]
  \<close>
\<close>

definition clip_uuids :: "json \<Rightarrow> string list" where
  "clip_uuids data =
     (case data of
        JList xs \<Rightarrow>
          (if length xs > 1
           then (case xs ! 1 of JList us \<Rightarrow> List.map_filter str_of us | _ \<Rightarrow> [])
           else [])
      | _ \<Rightarrow> [])"

text \<open>
  The lookup of a keyframe's identifier, in \<open>collect_frames\<close>:
  \<^verbatim>\<open>uuid = uuids[idx] if (idx is not None and 0 <= idx < len(uuids)) else None\<close>
\<close>

definition resolve_uuid :: "string list \<Rightarrow> int option \<Rightarrow> py_error + string option" where
  "resolve_uuid uuids idx =
     (case idx of
        None \<Rightarrow> Inr None
      | Some i \<Rightarrow>
          (if 0 \<le> i \<and> i < int (length uuids)
           then (case py_index uuids i of Inl e \<Rightarrow> Inl e | Inr u \<Rightarrow> Inr (Some u))
           else Inr None))"


section \<open>Walking a document\<close>

text \<open>
  \<^verbatim>\<open>
  def walk(node, visitor):
      if isinstance(node, list):
          visitor(node)
          for v in node: walk(v, visitor)
      elif isinstance(node, dict):
          visitor(node)
          for k in list(node.keys()): walk(node[k], visitor)
  \<close>
  \<open>walk_nodes node\<close> is the sequence of nodes the visitor is called on, in the order of
  the calls: every list and dict of the document, parents before children.
\<close>

fun walk_nodes :: "json \<Rightarrow> json list"
  and walk_list :: "json list \<Rightarrow> json list"
  and walk_items :: "(string \<times> json) list \<Rightarrow> json list" where
  "walk_nodes (JList xs) = JList xs # walk_list xs"
| "walk_nodes (JDict kvs) = JDict kvs # walk_items kvs"
| "walk_nodes JNull = []"
| "walk_nodes (JBool b) = []"
| "walk_nodes (JInt n) = []"
| "walk_nodes (JFloat f) = []"
| "walk_nodes (JStr s) = []"
| "walk_list [] = []"
| "walk_list (v # vs) = walk_nodes v @ walk_list vs"
| "walk_items [] = []"
| "walk_items (kv # kvs) = walk_nodes (snd kv) @ walk_items kvs"

section \<open>Skeleton bundles\<close>

record skeleton =
  sk_name :: string
  atlasText :: string
  skeletonJson :: "(string \<times> json) list"
  textureNames :: "json list"
  textureIndices :: "json list"

text \<open>
  The visitor of \<open>extract_skeleton_entries\<close>: a list of at least six elements, the
  first equal to 0, then two strings, a list, a dict and a list.
\<close>

definition visit_skeleton :: "json \<Rightarrow> skeleton option" where
  "visit_skeleton node =
     (case node of
        JList xs \<Rightarrow>
          (if length xs \<ge> 6 \<and> py_eq_int (xs ! 0) 0
           then (case (str_of (xs ! 1), str_of (xs ! 2), list_of (xs ! 3),
                       dict_of (xs ! 4), list_of (xs ! 5)) of
                   (Some n, Some a, Some tn, Some sj, Some ti) \<Rightarrow>
                     Some \<lparr>sk_name = n, atlasText = a, skeletonJson = sj,
                           textureNames = tn, textureIndices = ti\<rparr>
                 | _ \<Rightarrow> None)
           else None)
      | _ \<Rightarrow> None)"

definition extract_skeleton_entries :: "json \<Rightarrow> skeleton list" where
  "extract_skeleton_entries json_data = List.map_filter visit_skeleton (walk_nodes json_data)"

text \<open>
  In \<open>main\<close>, the identifier list of a document with skeletons (not filtered, unlike
  the table of the clips):
  \<^verbatim>\<open>
  uuids = json_data[1] if (isinstance(json_data, list) and len(json_data) > 1
                           and isinstance(json_data[1], list)) else []
  \<close>
\<close>

definition skeleton_uuids :: "json \<Rightarrow> json list" where
  "skeleton_uuids json_data =
     (case json_data of
        JList xs \<Rightarrow> (if length xs > 1 then (case xs ! 1 of JList us \<Rightarrow> us | _ \<Rightarrow> []) else [])
      | _ \<Rightarrow> [])"

text \<open>
  \<^verbatim>\<open>
  idx = 0
  if isinstance(sk.get("textureIndices"), list) and sk["textureIndices"] \
          and isinstance(sk["textureIndices"][0], int):
      idx = sk["textureIndices"][0]
  \<close>
\<close>

definition texture_index_hint :: "skeleton \<Rightarrow> int" where
  "texture_index_hint sk =
     (case textureIndices sk of
        [] \<Rightarrow> 0
      | t # _ \<Rightarrow> (case int_of t of Some i \<Rightarrow> i | None \<Rightarrow> 0))"

text \<open>
  \<^verbatim>\<open>
  if uuids:
      ...
      comp_uuid = uuids[idx] if 0 <= idx < len(uuids) else uuids[0]
  \<close>
  \<open>None\<close> when \<open>uuids\<close> is empty: the bundle then gets no texture.
\<close>

definition skeleton_comp_uuid :: "json list \<Rightarrow> skeleton \<Rightarrow> (py_error + json) option" where
  "skeleton_comp_uuid uuids sk =
     (if uuids = [] then None
      else let idx = texture_index_hint sk
           in Some (if 0 \<le> idx \<and> idx < int (length uuids)
                    then py_index uuids idx else py_index uuids 0))"

section \<open>Animation clips\<close>

text \<open>
  \<open>float(n)\<close> for an \<open>int\<close>: exact below \<open>2 ^ 53\<close>; beyond, the nearest double with
  ties to the even mantissa, and \<open>OverflowError\<close> when that is \<open>2 ^ 1024\<close> or more.
\<close>

definition float_of_int :: "int \<Rightarrow> py_error + pyfloat" where
  "float_of_int n =
     (let a = \<bar>n\<bar> in
      if a < 2 ^ 53 then Inr (Fin (of_int n))
      else
        let e = nat (bitlen a) - 53;
            q = a div 2 ^ e;
            r = a mod 2 ^ e;
            h = 2 ^ (e - 1);
            q' = (if r > h \<or> (r = h \<and> odd q) then q + 1 else q);
            m = q' * 2 ^ e
        in if m \<ge> 2 ^ 1024 then Inl OverflowError else Inr (Fin (of_int (sgn n * m))))"

text \<open>
  \<open>float(x)\<close>. The source calls it only on values that passed
  \<open>isinstance(x, (int, float))\<close>; the other cases are never reached (a \<open>str\<close>, which
  Python would parse, is not modelled and stands as \<open>TypeError\<close> with the rest).
\<close>

fun py_float :: "json \<Rightarrow> py_error + pyfloat" where
  "py_float (JBool b) = Inr (Fin (if b then 1 else 0))"
| "py_float (JInt n) = float_of_int n"
| "py_float (JFloat f) = Inr f"
| "py_float _ = Inl TypeError"

text \<open>
  The dicts the extractor builds. \<open>kf_time\<close>, \<open>kf_uuid\<close>, \<open>kf_uuid_index\<close> are the keys
  \<open>time\<close>, \<open>uuid\<close>, \<open>uuid_index\<close> of a frame; \<open>track_type\<close>, \<open>track_frames\<close> the keys
  \<open>type\<close>, \<open>frames\<close> of a track; \<open>clip_name\<close>, \<open>clip_duration\<close>, \<open>clip_sample\<close>,
  \<open>clip_tracks\<close> the keys \<open>name\<close>, \<open>duration\<close>, \<open>sample\<close>, \<open>tracks\<close> of a clip.
  An index that is a \<open>bool\<close> is kept as the integer it is.
\<close>

record keyframe =
  kf_time :: "pyfloat option"
  kf_uuid :: "string option"
  kf_uuid_index :: "int option"

record track =
  track_type :: string
  track_frames :: "keyframe list"

record clip =
  clip_name :: string
  clip_duration :: pyfloat
  clip_sample :: "pyfloat option"
  clip_tracks :: "track list"

text \<open>
  The clip-header test of \<open>find_clips\<close> and the dict it builds: \<open>None\<close> when the node
  is no header, an error when \<open>float\<close> raises.
\<close>

definition clip_header :: "json list \<Rightarrow> (py_error + clip) option" where
  "clip_header node =
     (if length node \<ge> 3 \<and> is_number (node ! 0) \<and> is_str (node ! 1) \<and> is_number (node ! 2)
         \<and> (length node < 4 \<or> is_number (node ! 3))
      then (case str_of (node ! 1) of
              None \<Rightarrow> None
            | Some nm \<Rightarrow>
                Some (case py_float (node ! 2) of
                        Inl e \<Rightarrow> Inl e
                      | Inr d \<Rightarrow>
                          (if length node > 3 \<and> is_number (node ! 3)
                           then (case py_float (node ! 3) of
                                   Inl e \<Rightarrow> Inl e
                                 | Inr s \<Rightarrow>
                                     Inr \<lparr>clip_name = nm, clip_duration = d,
                                          clip_sample = Some s, clip_tracks = []\<rparr>)
                           else Inr \<lparr>clip_name = nm, clip_duration = d,
                                     clip_sample = None, clip_tracks = []\<rparr>)))
      else None)"

text \<open>
  The index loop of a keyframe record, run on the elements from position 1 on:
  \<^verbatim>\<open>
  for i in range(1, len(entry)):
      if entry[i] == 6 and i + 1 < len(entry) and isinstance(entry[i + 1], int):
          idx = entry[i + 1]
          break
  \<close>
\<close>

fun find_idx :: "json list \<Rightarrow> int option" where
  "find_idx (a # b # rest) =
     (if py_eq_int a 6
      then (case int_of b of Some i \<Rightarrow> Some i | None \<Rightarrow> find_idx (b # rest))
      else find_idx (b # rest))"
| "find_idx _ = None"

text \<open>
  The keyframe test of \<open>collect_frames\<close> and the frame it appends: a list of at least
  four elements whose first is a dict with the key \<open>frame\<close> and one of whose elements
  equals \<open>"value"\<close>.
\<close>

definition keyframe_of :: "string list \<Rightarrow> json \<Rightarrow> (py_error + keyframe) option" where
  "keyframe_of uuids entry =
     (case entry of
        JList es \<Rightarrow>
          (if length es \<ge> 4
           then (case es ! 0 of
                   JDict d \<Rightarrow>
                     (case map_of d ''frame'' of
                        Some fv \<Rightarrow>
                          (if JStr ''value'' \<in> set es
                           then Some
                             (case (if is_number fv then map_sum id Some (py_float fv)
                                    else Inr None) of
                                Inl e \<Rightarrow> Inl e
                              | Inr t \<Rightarrow>
                                  (let idx = find_idx (tl es) in
                                   case resolve_uuid uuids idx of
                                     Inl e \<Rightarrow> Inl e
                                   | Inr u \<Rightarrow>
                                       Inr \<lparr>kf_time = t, kf_uuid = u, kf_uuid_index = idx\<rparr>))
                           else None)
                      | None \<Rightarrow> None)
                 | _ \<Rightarrow> None)
           else None)
      | _ \<Rightarrow> None)"

text \<open>
  \<open>collect_frames\<close>: first the keyframes among the entries of the list, then, entry by
  entry, the keyframes below each.
\<close>

fun own_frames :: "string list \<Rightarrow> json list \<Rightarrow> py_error + keyframe list" where
  "own_frames uuids [] = Inr []"
| "own_frames uuids (entry # es) =
     (case keyframe_of uuids entry of
        None \<Rightarrow> own_frames uuids es
      | Some (Inl e) \<Rightarrow> Inl e
      | Some (Inr f) \<Rightarrow>
          (case own_frames uuids es of Inl e \<Rightarrow> Inl e | Inr fs \<Rightarrow> Inr (f # fs)))"

fun collect_frames :: "string list \<Rightarrow> json \<Rightarrow> py_error + keyframe list"
  and collect_below :: "string list \<Rightarrow> json list \<Rightarrow> py_error + keyframe list" where
  "collect_frames uuids (JList n) =
     (case own_frames uuids n of
        Inl e \<Rightarrow> Inl e
      | Inr fs \<Rightarrow>
          (case collect_below uuids n of Inl e \<Rightarrow> Inl e | Inr gs \<Rightarrow> Inr (fs @ gs)))"
| "collect_frames uuids JNull = Inr []"
| "collect_frames uuids (JBool b) = Inr []"
| "collect_frames uuids (JInt k) = Inr []"
| "collect_frames uuids (JFloat f) = Inr []"
| "collect_frames uuids (JStr s) = Inr []"
| "collect_frames uuids (JDict d) = Inr []"
| "collect_below uuids [] = Inr []"
| "collect_below uuids (entry # es) =
     (case collect_frames uuids entry of
        Inl e \<Rightarrow> Inl e
      | Inr fs \<Rightarrow>
          (case collect_below uuids es of Inl e \<Rightarrow> Inl e | Inr gs \<Rightarrow> Inr (fs @ gs)))"

text \<open>
  \<open>find_clips\<close>. The list \<open>clips\<close> is the state; \<open>current\<close> is a reference to a dict that
  is also an element of \<open>clips\<close>, so it is modelled as the position of that clip in the
  list, and appending a track to it updates the list there. A header met in a node
  replaces \<open>current\<close> for that node and its children only.
\<close>

definition open_clip :: "json list \<Rightarrow> nat option \<Rightarrow> clip list \<Rightarrow> py_error + nat option \<times> clip list" where
  "open_clip node current clips =
     (case clip_header node of
        None \<Rightarrow> Inr (current, clips)
      | Some (Inl e) \<Rightarrow> Inl e
      | Some (Inr c) \<Rightarrow> Inr (Some (length clips), clips @ [c]))"

definition add_track :: "string list \<Rightarrow> json list \<Rightarrow> nat option \<Rightarrow> clip list \<Rightarrow> py_error + clip list" where
  "add_track uuids node current clips =
     (if JStr ''spriteFrame'' \<in> set node
      then (case collect_frames uuids (JList node) of
              Inl e \<Rightarrow> Inl e
            | Inr frames \<Rightarrow>
                (case current of
                   Some k \<Rightarrow>
                     (if frames \<noteq> []
                      then Inr (clips[k := (clips ! k)\<lparr>clip_tracks := clip_tracks (clips ! k) @
                                  [\<lparr>track_type = ''spriteFrame'', track_frames = frames\<rparr>]\<rparr>])
                      else Inr clips)
                 | None \<Rightarrow> Inr clips))
      else Inr clips)"

fun find_clips :: "string list \<Rightarrow> json \<Rightarrow> nat option \<Rightarrow> clip list \<Rightarrow> py_error + clip list"
  and find_clips_children :: "string list \<Rightarrow> json list \<Rightarrow> nat option \<Rightarrow> clip list \<Rightarrow> py_error + clip list" where
  "find_clips uuids (JList node) current clips =
     (case open_clip node current clips of
        Inl e \<Rightarrow> Inl e
      | Inr (cur, clips1) \<Rightarrow>
          (case add_track uuids node cur clips1 of
             Inl e \<Rightarrow> Inl e
           | Inr clips2 \<Rightarrow> find_clips_children uuids node cur clips2))"
| "find_clips uuids JNull current clips = Inr clips"
| "find_clips uuids (JBool b) current clips = Inr clips"
| "find_clips uuids (JInt k) current clips = Inr clips"
| "find_clips uuids (JFloat f) current clips = Inr clips"
| "find_clips uuids (JStr s) current clips = Inr clips"
| "find_clips uuids (JDict d) current clips = Inr clips"
| "find_clips_children uuids [] current clips = Inr clips"
| "find_clips_children uuids (child # rest) current clips =
     (case find_clips uuids child current clips of
        Inl e \<Rightarrow> Inl e
      | Inr clips1 \<Rightarrow> find_clips_children uuids rest current clips1)"

definition parse_animation_clip :: "json \<Rightarrow> py_error + clip list" where
  "parse_animation_clip data = find_clips (clip_uuids data) data None []"

section \<open>WEBP dimensions\<close>

type_synonym byte = "8 word"

text \<open>
  A bytes literal, \<open>buf[a:b]\<close> for bounds that are not negative (the only ones the
  source uses; a slice stops at the end of the buffer and never raises), \<open>buf[i]\<close>
  (which raises \<open>IndexError\<close> past the end: \<open>None\<close> here) and
  \<open>int.from_bytes(bs, "little")\<close>.
\<close>

definition bytes_of :: "string \<Rightarrow> byte list" where
  "bytes_of s = map (\<lambda>c. of_nat (of_char c)) s"

definition py_slice :: "'a list \<Rightarrow> nat \<Rightarrow> nat \<Rightarrow> 'a list" where
  "py_slice buf a b = take (b - a) (drop a buf)"

definition byte_at :: "byte list \<Rightarrow> nat \<Rightarrow> int option" where
  "byte_at buf i = (if i < length buf then Some (uint (buf ! i)) else None)"

fun from_bytes_little :: "byte list \<Rightarrow> int" where
  "from_bytes_little [] = 0"
| "from_bytes_little (b # bs) = uint b + 256 * from_bytes_little bs"

text \<open>
  The loop of \<open>read_webp_size\<close> over the chunks, from offset \<open>off\<close>. The function returns
  \<open>None\<close> where the source returns \<open>None\<close> and where it raises (its body stands in
  \<open>try ... except Exception: return None\<close>). The next offset is
  \<open>data_start + ((size + 1) & ~1)\<close>. The three branches that return:
  \<^verbatim>\<open>
  VP8X:  w_minus_1 = int.from_bytes(buf[data_start + 4:data_start + 7], "little")
         h_minus_1 = int.from_bytes(buf[data_start + 7:data_start + 10], "little")
         return {"width": w_minus_1 + 1, "height": h_minus_1 + 1}
  VP8 :  sig_off = data_start + 3
         w = int.from_bytes(buf[sig_off + 3:sig_off + 5], "little") & 0x3FFF
         h = int.from_bytes(buf[sig_off + 5:sig_off + 7], "little") & 0x3FFF
         return {"width": w, "height": h}
  VP8L:  width = (b1 | ((b2 & 0x3F) << 8)) + 1
         height = ((b2 >> 6) | (b3 << 2) | ((b4 & 0x03) << 10)) + 1
         return {"width": width, "height": height}
  \<close>
\<close>

function webp_chunks :: "byte list \<Rightarrow> nat \<Rightarrow> (int \<times> int) option" where
  "webp_chunks buf off =
     (if off + 8 \<le> length buf
      then
        (let chunk = py_slice buf off (off + 4);
             size = from_bytes_little (py_slice buf (off + 4) (off + 8));
             data_start = off + 8;
             next = data_start + nat ((size + 1) AND NOT 1)
         in
           if chunk = bytes_of ''VP8X''
           then (let w_minus_1 = from_bytes_little (py_slice buf (data_start + 4) (data_start + 7));
                     h_minus_1 = from_bytes_little (py_slice buf (data_start + 7) (data_start + 10))
                 in Some (w_minus_1 + 1, h_minus_1 + 1))
           else if chunk = bytes_of ''VP8 '' \<and> size \<ge> 10
           then (if py_slice buf (data_start + 3) (data_start + 6) = [0x9d, 0x01, 0x2a]
                 then (let sig_off = data_start + 3;
                           w = from_bytes_little (py_slice buf (sig_off + 3) (sig_off + 5)) AND 0x3FFF;
                           h = from_bytes_little (py_slice buf (sig_off + 5) (sig_off + 7)) AND 0x3FFF
                       in Some (w, h))
                 else webp_chunks buf next)
           else if chunk = bytes_of ''VP8L'' \<and> size \<ge> 5
           then (case byte_at buf data_start of
                   None \<Rightarrow> None
                 | Some b0 \<Rightarrow>
                     (if b0 = 0x2F
                      then (case (byte_at buf (data_start + 1), byte_at buf (data_start + 2),
                                  byte_at buf (data_start + 3), byte_at buf (data_start + 4)) of
                              (Some b1, Some b2, Some b3, Some b4) \<Rightarrow>
                                (let width = (b1 OR push_bit 8 (b2 AND 0x3F)) + 1;
                                     height = (drop_bit 6 b2 OR push_bit 2 b3
                                                 OR push_bit 10 (b4 AND 0x03)) + 1
                                 in Some (width, height))
                            | _ \<Rightarrow> None)
                      else webp_chunks buf next))
           else webp_chunks buf next)
      else None)"
  by pat_completeness auto
termination
  by (relation "measure (\<lambda>(buf, off). length buf - off)") auto

declare webp_chunks.simps [simp del]

definition read_webp_size :: "byte list \<Rightarrow> (int \<times> int) option" where
  "read_webp_size buf =
     (if length buf < 12 then None
      else if py_slice buf 0 4 \<noteq> bytes_of ''RIFF'' \<or> py_slice buf 8 12 \<noteq> bytes_of ''WEBP'' then None
      else webp_chunks buf 12)"

text \<open>
  The fields of the container, from the specification's words and the format they
  name, to compare the source with. \<open>spec_le_field buf off n\<close> is the little-endian
  number held by the \<open>n\<close> bytes from offset \<open>off\<close>, when they lie within the file.
  \<^item> \<open>VP8X\<close>: "two 24-bit little-endian fields (width-minus-1, height-minus-1) at fixed
    offsets": bytes 4 to 6 and 7 to 9 of the payload.
  \<^item> \<open>VP8\<close>: after the start code \<open>9D 01 2A\<close> (bytes 3 to 5 of the payload), "two 14-bit
    little-endian fields packed across the following 4 bytes": the low 14 bits of each
    of the two 16-bit numbers.
  \<^item> \<open>VP8L\<close>: after the signature byte, "a packed 14-bit width/height pair spanning 4
    bytes": bits 0 to 13 (width-minus-1) and bits 14 to 27 (height-minus-1) of the
    32-bit number.
\<close>

definition spec_le_field :: "byte list \<Rightarrow> nat \<Rightarrow> nat \<Rightarrow> int option" where
  "spec_le_field buf off n =
     (if off + n \<le> length buf then Some (\<Sum>i<n. uint (buf ! (off + i)) * 256 ^ i) else None)"

definition spec_vp8x_fields :: "byte list \<Rightarrow> nat \<Rightarrow> int option \<times> int option" where
  "spec_vp8x_fields buf data_start =
     (spec_le_field buf (data_start + 4) 3, spec_le_field buf (data_start + 7) 3)"

definition spec_vp8_fields :: "byte list \<Rightarrow> nat \<Rightarrow> int option \<times> int option" where
  "spec_vp8_fields buf data_start =
     (map_option (\<lambda>v. v mod 2 ^ 14) (spec_le_field buf (data_start + 6) 2),
      map_option (\<lambda>v. v mod 2 ^ 14) (spec_le_field buf (data_start + 8) 2))"

definition spec_vp8l_fields :: "byte list \<Rightarrow> nat \<Rightarrow> int option \<times> int option" where
  "spec_vp8l_fields buf data_start =
     (map_option (\<lambda>v. v mod 2 ^ 14) (spec_le_field buf (data_start + 1) 4),
      map_option (\<lambda>v. (v div 2 ^ 14) mod 2 ^ 14) (spec_le_field buf (data_start + 1) 4))"

section \<open>Text\<close>

text \<open>
  Strings are modelled on ASCII text. \<open>is_space\<close> is \<open>str.isspace\<close> and the class \<open>\s\<close>
  (tab, line feed, vertical tab, form feed, carriage return, the four separators
  \<open>0x1c\<close> to \<open>0x1f\<close>, space); \<open>is_c_space\<close> is the white space \<open>int\<close> skips around a
  number (the same without the four separators); \<open>is_digit\<close> is the class \<open>\d\<close>.
\<close>

definition is_space :: "char \<Rightarrow> bool" where
  "is_space c = (of_char c \<in> {9, 10, 11, 12, 13, 28, 29, 30, 31, 32 :: nat})"

definition is_c_space :: "char \<Rightarrow> bool" where
  "is_c_space c = (of_char c \<in> {9, 10, 11, 12, 13, 32 :: nat})"

definition is_digit :: "char \<Rightarrow> bool" where
  "is_digit c = (48 \<le> (of_char c :: nat) \<and> (of_char c :: nat) \<le> 57)"

definition digit_val :: "char \<Rightarrow> nat" where
  "digit_val c = of_char c - 48"

text \<open>\<open>s.rstrip(chars)\<close> and \<open>s.strip()\<close>.\<close>

definition rstrip_chars :: "(char \<Rightarrow> bool) \<Rightarrow> string \<Rightarrow> string" where
  "rstrip_chars P s = rev (dropWhile P (rev s))"

definition strip :: "string \<Rightarrow> string" where
  "strip s = rstrip_chars is_space (dropWhile is_space s)"

text \<open>The decimal text of a number: \<open>str(n)\<close>, and what an f-string puts for an \<open>int\<close>.\<close>

fun str_nat :: "nat \<Rightarrow> string" where
  "str_nat n = (if n < 10 then [char_of (48 + n)] else str_nat (n div 10) @ [char_of (48 + n mod 10)])"

declare str_nat.simps [simp del]

definition str_int :: "int \<Rightarrow> string" where
  "str_int i = (if i < 0 then CHR ''-'' # str_nat (nat (- i)) else str_nat (nat i))"

text \<open>
  \<open>int(s)\<close> for a \<open>str\<close>, base 10: the white space around the number is dropped, one
  sign may lead, and the digits may be grouped by single underscores; anything else is
  a \<open>ValueError\<close> (\<open>None\<close> here), and so is a number of more than 4300 digits (the
  limit \<open>sys.int_max_str_digits\<close> of the interpreter, at its default).
\<close>

fun dec_digits :: "nat \<Rightarrow> string \<Rightarrow> nat option" where
  "dec_digits acc [] = Some acc"
| "dec_digits acc (c # cs) =
     (if is_digit c then dec_digits (10 * acc + digit_val c) cs
      else if c = CHR ''_'' then
        (case cs of
           [] \<Rightarrow> None
         | d # ds \<Rightarrow> if is_digit d then dec_digits (10 * acc + digit_val d) ds else None)
      else None)"

definition dec_number :: "string \<Rightarrow> nat option" where
  "dec_number s =
     (case s of
        [] \<Rightarrow> None
      | d # ds \<Rightarrow>
          if is_digit d \<and> length (filter is_digit s) \<le> 4300
          then dec_digits (digit_val d) ds else None)"

definition py_int_str :: "string \<Rightarrow> int option" where
  "py_int_str s =
     (case rstrip_chars is_c_space (dropWhile is_c_space s) of
        [] \<Rightarrow> None
      | c # cs \<Rightarrow>
          (if c = CHR ''-'' then map_option (\<lambda>n. - int n) (dec_number cs)
           else if c = CHR ''+'' then map_option int (dec_number cs)
           else map_option int (dec_number (c # cs))))"

section \<open>Conversions and the geometry of a frame\<close>

text \<open>The truth value of a value (\<open>if x\<close>, \<open>x and y\<close>, \<open>bool(x)\<close>).\<close>

fun py_truthy :: "json \<Rightarrow> bool" where
  "py_truthy JNull = False"
| "py_truthy (JBool b) = b"
| "py_truthy (JInt n) = (n \<noteq> 0)"
| "py_truthy (JFloat f) = (f \<noteq> Fin 0)"
| "py_truthy (JStr s) = (s \<noteq> [])"
| "py_truthy (JList xs) = (xs \<noteq> [])"
| "py_truthy (JDict kvs) = (kvs \<noteq> [])"

text \<open>
  \<open>int(x)\<close>: a float is cut towards zero, an infinity raises \<open>OverflowError\<close>, a NaN
  and a text that is no number \<open>ValueError\<close>, \<open>None\<close>, a list and a dict \<open>TypeError\<close>.
\<close>

fun py_int :: "json \<Rightarrow> py_error + int" where
  "py_int (JBool b) = Inr (if b then 1 else 0)"
| "py_int (JInt n) = Inr n"
| "py_int (JFloat (Fin r)) = Inr (if r < 0 then - \<lfloor>- r\<rfloor> else \<lfloor>r\<rfloor>)"
| "py_int (JFloat PosInf) = Inl OverflowError"
| "py_int (JFloat NegInf) = Inl OverflowError"
| "py_int (JFloat NaN) = Inl ValueError"
| "py_int (JStr s) = (case py_int_str s of None \<Rightarrow> Inl ValueError | Some n \<Rightarrow> Inr n)"
| "py_int JNull = Inl TypeError"
| "py_int (JList xs) = Inl TypeError"
| "py_int (JDict kvs) = Inl TypeError"

text \<open>
  \<open>x[i]\<close> for an integer \<open>i\<close>: an element of a list, a character of a string; a dict
  of a document has string keys only, so the key is missing; the other values cannot
  be subscripted.
\<close>

fun py_getitem :: "json \<Rightarrow> int \<Rightarrow> py_error + json" where
  "py_getitem (JList xs) i = py_index xs i"
| "py_getitem (JStr s) i = map_sum id (\<lambda>c. JStr [c]) (py_index s i)"
| "py_getitem (JDict kvs) i = Inl KeyError"
| "py_getitem JNull i = Inl TypeError"
| "py_getitem (JBool b) i = Inl TypeError"
| "py_getitem (JInt n) i = Inl TypeError"
| "py_getitem (JFloat f) i = Inl TypeError"

text \<open>Sequencing of steps that can raise: the first exception ends the evaluation.\<close>

definition py_bind :: "py_error + 'a \<Rightarrow> ('a \<Rightarrow> py_error + 'b) \<Rightarrow> py_error + 'b" where
  "py_bind m f = (case m of Inl e \<Rightarrow> Inl e | Inr v \<Rightarrow> f v)"

record rect =
  r_x :: int
  r_y :: int
  r_w :: int
  r_h :: int

record pair =
  p_x :: int
  p_y :: int

text \<open>
  \<^verbatim>\<open>
  def parse_rect(rect):
      if not isinstance(rect, list):
          return {"x": 0, "y": 0, "w": 0, "h": 0}
      if rect and isinstance(rect[0], list):
          return {"x": int(rect[0][0]), "y": int(rect[0][1]),
                  "w": int(rect[1][0]), "h": int(rect[1][1])}
      return {"x": int(rect[0]), "y": int(rect[1]), "w": int(rect[2]), "h": int(rect[3])}
  \<close>
  The fields \<open>r_x\<close>, \<open>r_y\<close>, \<open>r_w\<close>, \<open>r_h\<close> are the keys \<open>x\<close>, \<open>y\<close>, \<open>w\<close>, \<open>h\<close>; the values of
  the dict are evaluated from left to right.
\<close>

definition elem2 :: "json list \<Rightarrow> int \<Rightarrow> int \<Rightarrow> py_error + int" where
  "elem2 xs i j = py_bind (py_bind (py_index xs i) (\<lambda>row. py_getitem row j)) py_int"

definition elem1 :: "json list \<Rightarrow> int \<Rightarrow> py_error + int" where
  "elem1 xs i = py_bind (py_index xs i) py_int"

definition parse_rect :: "json \<Rightarrow> py_error + rect" where
  "parse_rect rct =
     (case rct of
        JList xs \<Rightarrow>
          (if xs \<noteq> [] \<and> is_list (xs ! 0)
           then py_bind (elem2 xs 0 0) (\<lambda>x. py_bind (elem2 xs 0 1) (\<lambda>y.
                py_bind (elem2 xs 1 0) (\<lambda>w. py_bind (elem2 xs 1 1) (\<lambda>h.
                  Inr \<lparr>r_x = x, r_y = y, r_w = w, r_h = h\<rparr>))))
           else py_bind (elem1 xs 0) (\<lambda>x. py_bind (elem1 xs 1) (\<lambda>y.
                py_bind (elem1 xs 2) (\<lambda>w. py_bind (elem1 xs 3) (\<lambda>h.
                  Inr \<lparr>r_x = x, r_y = y, r_w = w, r_h = h\<rparr>)))))
      | _ \<Rightarrow> Inr \<lparr>r_x = 0, r_y = 0, r_w = 0, r_h = 0\<rparr>)"

text \<open>
  \<^verbatim>\<open>
  def parse_pair(pair):
      if not isinstance(pair, list):
          return {"x": 0, "y": 0}
      return {"x": int(pair[0]), "y": int(pair[1])}
  \<close>
\<close>

definition parse_pair :: "json \<Rightarrow> py_error + pair" where
  "parse_pair pr =
     (case pr of
        JList xs \<Rightarrow>
          py_bind (elem1 xs 0) (\<lambda>x. py_bind (elem1 xs 1) (\<lambda>y. Inr \<lparr>p_x = x, p_y = y\<rparr>))
      | _ \<Rightarrow> Inr \<lparr>p_x = 0, p_y = 0\<rparr>)"

section \<open>Paths and files\<close>

text \<open>
  \<^verbatim>\<open>def safe_slug(s): return re.sub(r"[^a-zA-Z0-9._-]", "_", str(s))\<close>
\<close>

definition is_slug_char :: "char \<Rightarrow> bool" where
  "is_slug_char c =
     (let n = (of_char c :: nat)
      in (97 \<le> n \<and> n \<le> 122) \<or> (65 \<le> n \<and> n \<le> 90) \<or> (48 \<le> n \<and> n \<le> 57)
         \<or> c = CHR ''.'' \<or> c = CHR ''_'' \<or> c = CHR ''-'')"

definition safe_slug :: "string \<Rightarrow> string" where
  "safe_slug s = map (\<lambda>c. if is_slug_char c then c else CHR ''_'') s"


definition basename :: "string \<Rightarrow> string" where
  "basename p = rev (takeWhile (\<lambda>c. c \<noteq> CHR ''/'') (rev p))"

definition splitext :: "string \<Rightarrow> string \<times> string" where
  "splitext p =
     (let b = basename p;
          tail = rev (takeWhile (\<lambda>c. c \<noteq> CHR ''.'') (rev b));
          stem = take (length b - length tail - 1) b
      in if CHR ''.'' \<in> set b \<and> (\<exists>c\<in>set stem. c \<noteq> CHR ''.'')
         then (take (length p - length tail - 1) p, CHR ''.'' # tail)
         else (p, []))"

definition join :: "string \<Rightarrow> string \<Rightarrow> string" where
  "join a b =
     (if b \<noteq> [] \<and> hd b = CHR ''/'' then b
      else if a = [] \<or> last a = CHR ''/'' then a @ b
      else a @ CHR ''/'' # b)"

text \<open>
  The files of the output tree: what is stored at each path. \<open>fs_exists\<close> is
  \<open>os.path.exists\<close>; \<open>fs_write\<close> is what \<open>open(p, "w")\<close> followed by a write, and
  \<open>shutil.copy2\<close> to \<open>p\<close>, do to the tree: the path holds the new content, whatever it
  held before.
\<close>

type_synonym 'c fs = "(string \<times> 'c) list"


definition fs_write :: "'c fs \<Rightarrow> string \<Rightarrow> 'c \<Rightarrow> 'c fs" where
  "fs_write fs p c = AList.update p c fs"









section \<open>Audio files\<close>



section \<open>Explicit clips, written out\<close>

text \<open>
  What the extraction stores in a file: bytes (a file that was there before, a copy),
  the dump of a clip, or the dump of the index \<open>{"clips": [{"name": ..., "path": ...}]}\<close>.
\<close>

datatype content =
    Bytes "byte list"
  | ClipDoc clip
  | ClipIndex "(string \<times> string) list"

text \<open>
  The inner loop of \<open>extract_animations\<close>:
  \<^verbatim>\<open>
  for clip in clips:
      name = safe_slug(clip.get("name") or os.path.splitext(os.path.basename(path))[0])
      out_file = os.path.join(anim_out, f"{name}.anim.json")
      with open(out_file, "w", encoding="utf-8") as fh:
          json.dump(clip, fh, ensure_ascii=False, indent=2)
      collected.append({"name": clip.get("name"), "path": out_file})
  \<close>
\<close>

definition clip_out_file :: "string \<Rightarrow> string \<Rightarrow> clip \<Rightarrow> string" where
  "clip_out_file anim_out path c =
     join anim_out
       (safe_slug (if clip_name c \<noteq> [] then clip_name c else fst (splitext (basename path)))
          @ ''.anim.json'')"

fun write_clips ::
  "string \<Rightarrow> string \<Rightarrow> clip list \<Rightarrow> content fs \<times> (string \<times> string) list
     \<Rightarrow> content fs \<times> (string \<times> string) list" where
  "write_clips anim_out path [] st = st"
| "write_clips anim_out path (c # cs) st =
     write_clips anim_out path cs
       (fs_write (fst st) (clip_out_file anim_out path c) (ClipDoc c),
        snd st @ [(clip_name c, clip_out_file anim_out path c)])"

text \<open>
  The body of the loop of \<open>extract_animations\<close> over the documents, for one document:
  its path and its text. \<open>loads\<close> is \<open>json.loads\<close>, \<open>None\<close> where it raises. A document
  that cannot be read is skipped like one that does not parse.
  \<^verbatim>\<open>
  try:
      with open(path, "r", encoding="utf-8") as fh:
          txt = fh.read()
      if "cc.AnimationClip" not in txt:
          continue
      data = json.loads(txt)
  except Exception:
      continue
  clips = parse_animation_clip(data)
  if not clips:
      continue
  for clip in clips: ...
  \<close>
\<close>

definition animations_step ::
  "(string \<Rightarrow> json option) \<Rightarrow> string \<Rightarrow> string \<times> string
     \<Rightarrow> content fs \<times> (string \<times> string) list
     \<Rightarrow> py_error + content fs \<times> (string \<times> string) list" where
  "animations_step loads anim_out doc st =
     (if \<not> sublist ''cc.AnimationClip'' (snd doc) then Inr st
      else (case loads (snd doc) of
              None \<Rightarrow> Inr st
            | Some data \<Rightarrow>
                (case parse_animation_clip data of
                   Inl e \<Rightarrow> Inl e
                 | Inr clips \<Rightarrow> Inr (write_clips anim_out (fst doc) clips st))))"



section \<open>Inferred sequences\<close>

text \<open>
  \<open>split_name_series\<close> matches a frame name against
  \<^verbatim>\<open>^(.*?)(?:[_\-\s]?)(\d{1,4})$\<close>
  with \<open>re.match\<close>. The model follows the search of the matcher: the first group is
  tried from the shortest on (it is lazy, and \<open>.\<close> does not match a line feed); after
  it the separator is tried present, then absent; the digits are tried from four down
  to one; \<open>$\<close> holds at the end of the name and before a line feed that ends it. The
  first way that matches gives the groups.
\<close>

definition is_sep :: "char \<Rightarrow> bool" where
  "is_sep c = (c = CHR ''_'' \<or> c = CHR ''-'' \<or> is_space c)"

definition at_end :: "string \<Rightarrow> bool" where
  "at_end s = (s = [] \<or> s = [CHR 0x0A])"

definition match_digits :: "string \<Rightarrow> string option" where
  "match_digits s =
     (case filter (\<lambda>m. m \<le> length s \<and> list_all is_digit (take m s) \<and> at_end (drop m s))
             [4, 3, 2, 1] of
        [] \<Rightarrow> None
      | m # _ \<Rightarrow> Some (take m s))"

definition match_tail :: "string \<Rightarrow> string option" where
  "match_tail s =
     (case s of
        [] \<Rightarrow> None
      | c # cs \<Rightarrow>
          (if is_sep c
           then (case match_digits cs of Some d \<Rightarrow> Some d | None \<Rightarrow> match_digits s)
           else match_digits s))"

fun match_series :: "string \<Rightarrow> string \<Rightarrow> (string \<times> string) option" where
  "match_series base [] = None"
| "match_series base (c # cs) =
     (case match_tail (c # cs) of
        Some d \<Rightarrow> Some (base, d)
      | None \<Rightarrow> if c = CHR 0x0A then None else match_series (base @ [c]) cs)"

text \<open>
  \<^verbatim>\<open>
  base = m.group(1)
  idx = int(m.group(2))
  base = base.strip().rstrip("_-. ")
  if not base:
      return None
  return (base, idx)
  \<close>
  The second group is one to four digits, so \<open>int\<close> does not fail on it.
\<close>

definition split_name_series :: "string \<Rightarrow> (string \<times> int) option" where
  "split_name_series nm =
     (case match_series [] nm of
        None \<Rightarrow> None
      | Some (g1, g2) \<Rightarrow>
          (case py_int_str g2 of
             None \<Rightarrow> None
           | Some idx \<Rightarrow>
               (let base = rstrip_chars (\<lambda>c. c \<in> set ''_-. '') (strip g1)
                in if base = [] then None else Some (base, idx))))"

text \<open>
  \<open>series.setdefault(base, []).append((idx, name))\<close>, over the names of the frames of a
  group in the order of the dict; \<open>series\<close> keeps the bases in the order they first
  appear.
\<close>

fun series_add :: "string \<Rightarrow> int \<times> string \<Rightarrow> (string \<times> (int \<times> string) list) list
    \<Rightarrow> (string \<times> (int \<times> string) list) list" where
  "series_add base item [] = [(base, [item])]"
| "series_add base item (entry # rest) =
     (if fst entry = base then (fst entry, snd entry @ [item]) # rest
      else entry # series_add base item rest)"

fun build_series :: "string list \<Rightarrow> (string \<times> (int \<times> string) list) list
    \<Rightarrow> (string \<times> (int \<times> string) list) list" where
  "build_series [] series = series"
| "build_series (name # names) series =
     (case split_name_series name of
        None \<Rightarrow> build_series names series
      | Some (base, idx) \<Rightarrow> build_series names (series_add base (idx, name) series))"

text \<open>
  The count the source makes on the sorted list, given here the suffix values:
  \<^verbatim>\<open>
  consecutive = 1
  for i in range(1, len(lst)):
      if lst[i][0] == lst[i-1][0] + 1:
          consecutive += 1
      else:
          consecutive = max(consecutive, 1)
  \<close>
\<close>

fun count_consecutive :: "int list \<Rightarrow> nat \<Rightarrow> nat" where
  "count_consecutive (a # b # rest) consecutive =
     count_consecutive (b # rest) (if b = a + 1 then consecutive + 1 else max consecutive 1)"
| "count_consecutive _ consecutive = consecutive"

text \<open>
  The clip written for a group that is kept. The times of the source are quotients of
  doubles, \<open>float(i) / 24.0\<close> for the frame at position \<open>i\<close> and
  \<open>float(len(lst)) / 24.0\<close> for the duration; the model keeps the position and the
  length. The constant fields (\<open>sample\<close>, the type of the track, \<open>source\<close>) are left out.
\<close>

record guessed_frame =
  gf_position :: nat
  gf_frame_name :: string

record guessed_clip =
  gc_name :: string
  gc_length :: nat
  gc_frames :: "guessed_frame list"
  gc_source_atlas_uuid :: string

text \<open>
  The body of the loop over \<open>series.items()\<close>: the stable sort by suffix, the two tests,
  the clip. \<open>None\<close> where the source takes \<open>continue\<close>. The file the clip is written to
  (\<open>safe_slug(base)\<close> with \<open>.anim.guessed.json\<close>) and the index are not modelled.
\<close>

definition guess_clip :: "string \<Rightarrow> string \<Rightarrow> (int \<times> string) list \<Rightarrow> guessed_clip option" where
  "guess_clip comp_uuid base members =
     (let lst = sort_key fst members in
      if length lst < 3 then None
      else if count_consecutive (map fst lst) 1 < 3 then None
      else Some \<lparr>gc_name = base, gc_length = length lst,
                 gc_frames = map (\<lambda>(i, m). \<lparr>gf_position = i, gf_frame_name = snd m\<rparr>) (enumerate 0 lst),
                 gc_source_atlas_uuid = comp_uuid\<rparr>)"

text \<open>
  The clips inferred for one atlas group, from the names of its frames in the order of
  the dict. The names are the keys that are strings (\<open>split_name_series\<close> takes a
  \<open>str\<close>).
\<close>

definition guess_clips :: "string \<Rightarrow> string list \<Rightarrow> guessed_clip list" where
  "guess_clips comp_uuid names =
     List.map_filter (\<lambda>entry. guess_clip comp_uuid (fst entry) (snd entry)) (build_series names [])"

text \<open>
  The specification's measure, from its words: the longest strictly consecutive run of
  suffix values within the sorted group. \<open>run_from\<close> is the length of the run that
  starts at the head of the list.
\<close>

fun run_from :: "int list \<Rightarrow> nat" where
  "run_from (a # b # rest) = (if b = a + 1 then Suc (run_from (b # rest)) else 1)"
| "run_from [a] = 1"
| "run_from [] = 0"

fun spec_longest_run :: "int list \<Rightarrow> nat" where
  "spec_longest_run [] = 0"
| "spec_longest_run (a # rest) = max (run_from (a # rest)) (spec_longest_run rest)"

section \<open>Sprite frames and atlas groups\<close>

text \<open>\<open>node.get(key, default)\<close> on a dict.\<close>

definition dict_get :: "(string \<times> json) list \<Rightarrow> string \<Rightarrow> json \<Rightarrow> json" where
  "dict_get d k dflt = (case map_of d k of None \<Rightarrow> dflt | Some v \<Rightarrow> v)"

record sprite_frame =
  sf_name :: json
  sf_rotated :: bool
  sf_rect :: json
  sf_offset :: json
  sf_originalSize :: json

text \<open>
  The visitor of \<open>extract_sprite_frames\<close>:
  \<^verbatim>\<open>
  if isinstance(node, dict) and node.get("name") and node.get("rect") and node.get("originalSize"):
      out.append({"name": node.get("name"), "rotated": bool(node.get("rotated", False)),
                  "rect": node.get("rect"), "offset": node.get("offset", [0, 0]),
                  "originalSize": node.get("originalSize")})
  \<close>
\<close>

definition visit_sprite_frame :: "json \<Rightarrow> sprite_frame option" where
  "visit_sprite_frame node =
     (case node of
        JDict d \<Rightarrow>
          (if py_truthy (dict_get d ''name'' JNull) \<and> py_truthy (dict_get d ''rect'' JNull)
              \<and> py_truthy (dict_get d ''originalSize'' JNull)
           then Some \<lparr>sf_name = dict_get d ''name'' JNull,
                      sf_rotated = py_truthy (dict_get d ''rotated'' (JBool False)),
                      sf_rect = dict_get d ''rect'' JNull,
                      sf_offset = dict_get d ''offset'' (JList [JInt 0, JInt 0]),
                      sf_originalSize = dict_get d ''originalSize'' JNull\<rparr>
           else None)
      | _ \<Rightarrow> None)"

definition extract_sprite_frames :: "json \<Rightarrow> sprite_frame list" where
  "extract_sprite_frames json_data = List.map_filter visit_sprite_frame (walk_nodes json_data)"

definition guess_texture_uuid_compressed :: "json \<Rightarrow> string option" where
  "guess_texture_uuid_compressed json_data =
     (case json_data of
        JList xs \<Rightarrow>
          (if length xs > 1
           then (case xs ! 1 of
                   JList us \<Rightarrow> (case us of [] \<Rightarrow> None | u # _ \<Rightarrow> str_of u)
                 | _ \<Rightarrow> None)
           else None)
      | _ \<Rightarrow> None)"

text \<open>
  The frames of a group are a dict keyed by the frame's name, which is any value of
  the document that is not empty. A list or a dict cannot be a key (\<open>TypeError\<close>); two
  keys are the same when they are equal strings or equal numbers. A NaN is the same
  key as a NaN: \<open>json.loads\<close> has one object for every NaN it reads, and a dict finds
  a key that is the very object first.
\<close>

fun hashable :: "json \<Rightarrow> bool" where
  "hashable (JList xs) = False"
| "hashable (JDict d) = False"
| "hashable _ = True"

fun num_of :: "json \<Rightarrow> pyfloat option" where
  "num_of (JBool b) = Some (Fin (if b then 1 else 0))"
| "num_of (JInt n) = Some (Fin (of_int n))"
| "num_of (JFloat f) = Some f"
| "num_of _ = None"

definition key_eq :: "json \<Rightarrow> json \<Rightarrow> bool" where
  "key_eq a b =
     (case (str_of a, str_of b) of
        (Some s, Some t) \<Rightarrow> s = t
      | _ \<Rightarrow>
          (case (num_of a, num_of b) of
             (Some x, Some y) \<Rightarrow> x = y
           | _ \<Rightarrow> a = JNull \<and> b = JNull))"

record atlas_group =
  ag_frames :: "(json \<times> sprite_frame) list"
  ag_sources :: "string set"

text \<open>
  \<^verbatim>\<open>
  for fr in frames:
      name = fr["name"]
      if name not in grp["frames"]:
          grp["frames"][name] = fr
  \<close>
\<close>

fun add_frames :: "sprite_frame list \<Rightarrow> (json \<times> sprite_frame) list
    \<Rightarrow> py_error + (json \<times> sprite_frame) list" where
  "add_frames [] frames = Inr frames"
| "add_frames (fr # rest) frames =
     (if \<not> hashable (sf_name fr) then Inl TypeError
      else if list_ex (\<lambda>entry. key_eq (fst entry) (sf_name fr)) frames then add_frames rest frames
      else add_frames rest (frames @ [(sf_name fr, fr)]))"

text \<open>
  The sprite frame part of the loop of \<open>main\<close> over the documents, for one document
  (its path and what \<open>read_json\<close> returned for it; a document it returned \<open>None\<close> for
  is skipped before). \<open>atlas_groups\<close> is a dict keyed by the texture reference, kept in
  the order of insertion. The Spine part of the loop body stands before this one in the
  source and is modelled apart (\<open>extract_skeleton_entries\<close>, \<open>skeleton_comp_uuid\<close>).
  \<^verbatim>\<open>
  tex_uuid_comp = guess_texture_uuid_compressed(json_data)
  frames = extract_sprite_frames(json_data)
  if tex_uuid_comp and frames:
      grp = atlas_groups.setdefault(tex_uuid_comp, {"frames": {}, "sources": set()})
      grp["sources"].add(os.path.basename(jf))
      for fr in frames: ...
  \<close>
\<close>

definition collect_document ::
  "string \<times> json \<Rightarrow> (string \<times> atlas_group) list \<Rightarrow> py_error + (string \<times> atlas_group) list" where
  "collect_document doc atlas_groups =
     (let frames = extract_sprite_frames (snd doc) in
      case guess_texture_uuid_compressed (snd doc) of
        None \<Rightarrow> Inr atlas_groups
      | Some tex_uuid_comp \<Rightarrow>
          (if tex_uuid_comp \<noteq> [] \<and> frames \<noteq> []
           then (let grp = (case map_of atlas_groups tex_uuid_comp of
                              None \<Rightarrow> \<lparr>ag_frames = [], ag_sources = {}\<rparr>
                            | Some g \<Rightarrow> g)
                 in py_bind (add_frames frames (ag_frames grp))
                      (\<lambda>fs. Inr (AList.update tex_uuid_comp
                                   \<lparr>ag_frames = fs,
                                    ag_sources = insert (basename (fst doc)) (ag_sources grp)\<rparr>
                                   atlas_groups)))
           else Inr atlas_groups))"

fun collect_documents ::
  "(string \<times> json) list \<Rightarrow> (string \<times> atlas_group) list \<Rightarrow> py_error + (string \<times> atlas_group) list" where
  "collect_documents [] atlas_groups = Inr atlas_groups"
| "collect_documents (doc # docs) atlas_groups =
     py_bind (collect_document doc atlas_groups) (collect_documents docs)"

text \<open>
  The frame map of an atlas, in the loop of \<open>main\<close> over the groups. No \<open>try\<close> stands
  around these lines, nor around the loop.
  \<^verbatim>\<open>
  for name, fr in group["frames"].items():
      r = parse_rect(fr["rect"])
      off = parse_pair(fr.get("offset", [0, 0]))
      osz = parse_pair(fr.get("originalSize", [r["w"], r["h"]]))
      frames_obj[name] = {
          "rotated": bool(fr.get("rotated", False)),
          "frame": f"{{{r['x']},{r['y']}}},{{{r['w']},{r['h']}}}",
          "offset": f"{{{off['x']},{off['y']}}}",
          "sourceSize": f"{{{osz['x']},{osz['y']}}}",
      }
  \<close>
  Every frame of a group has the five keys, so the defaults of \<open>get\<close> are not used.
\<close>

record plist_frame =
  pf_rotated :: bool
  pf_frame :: string
  pf_offset :: string
  pf_sourceSize :: string

definition braces :: "int \<Rightarrow> int \<Rightarrow> string" where
  "braces a b = ''{'' @ str_int a @ '','' @ str_int b @ ''}''"

definition plist_frame_of :: "sprite_frame \<Rightarrow> py_error + plist_frame" where
  "plist_frame_of fr =
     py_bind (parse_rect (sf_rect fr)) (\<lambda>r.
     py_bind (parse_pair (sf_offset fr)) (\<lambda>off.
     py_bind (parse_pair (sf_originalSize fr)) (\<lambda>osz.
       Inr \<lparr>pf_rotated = sf_rotated fr,
            pf_frame = braces (r_x r) (r_y r) @ '','' @ braces (r_w r) (r_h r),
            pf_offset = braces (p_x off) (p_y off),
            pf_sourceSize = braces (p_x osz) (p_y osz)\<rparr>)))"

fun build_frames_obj :: "(json \<times> sprite_frame) list \<Rightarrow> py_error + (json \<times> plist_frame) list" where
  "build_frames_obj [] = Inr []"
| "build_frames_obj (entry # rest) =
     py_bind (plist_frame_of (snd entry)) (\<lambda>pf.
     py_bind (build_frames_obj rest) (\<lambda>more. Inr ((fst entry, pf) # more)))"

text \<open>
  The loop over \<open>atlas_groups.items()\<close>, as far as the frame maps go: the choice of the
  texture file before, and the writing of the descriptor after, are not modelled.
  The first exception ends the loop, and with it \<open>main\<close>.
\<close>

fun emit_atlases :: "(string \<times> atlas_group) list \<Rightarrow> py_error + (string \<times> (json \<times> plist_frame) list) list" where
  "emit_atlases [] = Inr []"
| "emit_atlases (g # gs) =
     py_bind (build_frames_obj (ag_frames (snd g))) (\<lambda>frames_obj.
     py_bind (emit_atlases gs) (\<lambda>more. Inr ((fst g, frames_obj) # more)))"

text \<open>
  The two loops of \<open>main\<close> one after the other, for the documents \<open>read_json\<close> could
  read: the groups are collected from all of them, then the frame maps are built.
\<close>

definition main_atlases :: "(string \<times> json) list \<Rightarrow> py_error + (string \<times> (json \<times> plist_frame) list) list" where
  "main_atlases docs = py_bind (collect_documents docs []) emit_atlases"

section \<open>Properties of the identifier tables\<close>

lemma map_filter_str_of: "map JStr (List.map_filter str_of us) = filter is_str us"
proof (induction us)
  case Nil
  show ?case by simp
next
  case (Cons u us)
  then show ?case by (cases u) simp_all
qed

text \<open>
  C6. The lookup of a keyframe's identifier in a table of length \<open>N\<close> gives none for
  every index below 0 and every index from \<open>N\<close> on, and it never raises, whatever the
  index is (also for a record that holds no index).
\<close>

theorem resolve_uuid_out_of_range:
  "(i < 0 \<or> int (length uuids) \<le> i \<longrightarrow> resolve_uuid uuids (Some i) = Inr None)
   \<and> (\<exists>r. resolve_uuid uuids idx = Inr r)"
  by (auto simp: resolve_uuid_def py_index_def split: option.splits)

theorem resolve_uuid_out_of_range_witness:
  "resolve_uuid [''tex_a'', ''tex_b''] (Some 2) = Inr None
   \<and> resolve_uuid [''tex_a'', ''tex_b''] (Some (- 1)) = Inr None
   \<and> (\<exists>r. resolve_uuid [''tex_a'', ''tex_b''] (Some 1) = Inr r)"
  using resolve_uuid_out_of_range [of 2 "[''tex_a'', ''tex_b'']" "Some 1"]
    resolve_uuid_out_of_range [of "- 1" "[''tex_a'', ''tex_b'']" "Some 1"]
  by simp

text \<open>
  C7, as the code has it. When the root of the document is a sequence whose second
  element is a sequence, the table of the clips is that element with the entries that
  are not strings left out (the others keep their order); it is the element itself when
  all its entries are strings. When the root is not a sequence, has fewer than two
  elements, or its second element is not a sequence, the table is empty.
\<close>

theorem clip_uuids_table:
  "(data = JList (x # JList us # rest) \<longrightarrow> map JStr (clip_uuids data) = filter is_str us)
   \<and> (data = JList (x # JList us # rest) \<and> list_all is_str us \<longrightarrow> map JStr (clip_uuids data) = us)
   \<and> ((\<nexists>y vs more. data = JList (y # JList vs # more)) \<longrightarrow> clip_uuids data = [])"
proof (intro conjI impI)
  assume "data = JList (x # JList us # rest)"
  then show "map JStr (clip_uuids data) = filter is_str us"
    by (simp add: clip_uuids_def map_filter_str_of)
next
  assume "data = JList (x # JList us # rest) \<and> list_all is_str us"
  then show "map JStr (clip_uuids data) = us"
    by (simp add: clip_uuids_def map_filter_str_of list_all_iff)
next
  assume no: "\<nexists>y vs more. data = JList (y # JList vs # more)"
  show "clip_uuids data = []"
  proof (cases data)
    case (JList xs)
    show ?thesis
    proof (cases xs)
      case Nil
      with JList show ?thesis by (simp add: clip_uuids_def)
    next
      case (Cons y ys)
      show ?thesis
      proof (cases ys)
        case Nil
        with JList Cons show ?thesis by (simp add: clip_uuids_def)
      next
        case (Cons z zs)
        with no JList \<open>xs = y # ys\<close> have "\<nexists>vs. z = JList vs" by simp
        with JList \<open>xs = y # ys\<close> Cons show ?thesis
          by (cases z) (simp_all add: clip_uuids_def)
      qed
    qed
  qed (simp_all add: clip_uuids_def)
qed

theorem clip_uuids_table_witness:
  "map JStr (clip_uuids (JList [JInt 0, JList [JStr ''tex_a'', JInt 5], JNull])) = [JStr ''tex_a'']
   \<and> map JStr (clip_uuids (JList [JInt 0, JList [JStr ''tex_a''], JNull])) = [JStr ''tex_a'']
   \<and> clip_uuids (JList [JInt 0, JStr ''tex_a'']) = []"
  using clip_uuids_table [of "JList [JInt 0, JList [JStr ''tex_a'', JInt 5], JNull]" "JInt 0"
      "[JStr ''tex_a'', JInt 5]" "[JNull]"]
    clip_uuids_table [of "JList [JInt 0, JList [JStr ''tex_a''], JNull]" "JInt 0"
      "[JStr ''tex_a'']" "[JNull]"]
    clip_uuids_table [of "JList [JInt 0, JStr ''tex_a'']"]
  by simp

text \<open>
  The claim C7 as the specification states it fails: a second element with an entry that
  is not a string does not give the empty table. For the document
  \<open>[0, ["a", 5, "b"]]\<close> the table is \<open>["a", "b"]\<close>.
\<close>

theorem clip_uuids_mixed_counterexample:
  "\<not> list_all is_str [JStr ''a'', JInt 5, JStr ''b'']
   \<and> clip_uuids (JList [JInt 0, JList [JStr ''a'', JInt 5, JStr ''b'']]) = [''a'', ''b'']"
  by (simp add: clip_uuids_def)

text \<open>
  C9. For a document whose identifier list is not empty, a skeleton bundle whose first
  texture index hint is an integer outside the list is given the first identifier of the
  list: the resolver yields a value (the bundle is not skipped) and does not raise.
\<close>

theorem skeleton_comp_uuid_fallback:
  assumes "skeleton_uuids json_data = u # us"
    and "textureIndices sk = t # rest"
    and "int_of t = Some i"
    and "i < 0 \<or> int (length (skeleton_uuids json_data)) \<le> i"
  shows "skeleton_comp_uuid (skeleton_uuids json_data) sk = Some (Inr u)"
  using assms
  by (auto simp: skeleton_comp_uuid_def texture_index_hint_def py_index_def Let_def)

theorem skeleton_comp_uuid_fallback_witness:
  "skeleton_comp_uuid (skeleton_uuids (JList [JInt 1, JList [JStr ''ab12'', JStr ''cd34'']]))
     \<lparr>sk_name = ''hero'', atlasText = ''size: 4,4'', skeletonJson = [],
      textureNames = [JStr ''hero.png''], textureIndices = [JInt 7]\<rparr>
   = Some (Inr (JStr ''ab12''))"
proof -
  let ?sk = "\<lparr>sk_name = ''hero'', atlasText = ''size: 4,4'', skeletonJson = [],
      textureNames = [JStr ''hero.png''], textureIndices = [JInt 7]\<rparr>"
  let ?doc = "JList [JInt 1, JList [JStr ''ab12'', JStr ''cd34'']]"
  have h1: "skeleton_uuids ?doc = JStr ''ab12'' # [JStr ''cd34'']"
    by (simp add: skeleton_uuids_def)
  have h2: "textureIndices ?sk = JInt 7 # []" by simp
  have h3: "int_of (JInt 7) = Some 7" by simp
  have h4: "(7::int) < 0 \<or> int (length (skeleton_uuids ?doc)) \<le> 7"
    by (simp add: skeleton_uuids_def)
  show ?thesis by (rule skeleton_comp_uuid_fallback [OF h1 h2 h3 h4])
qed

section \<open>Extraction of an explicit clip\<close>

text \<open>
  C4. The document \<open>[1, ["tex_a"], [0, "run", 1.5, 24, ["spriteFrame", [{"frame": 0},
  "value", 6, 0]]]]\<close> has the identifier table \<open>["tex_a"]\<close> and one clip header, whose four
  elements \<open>0, "run", 1.5, 24\<close> are followed in the same sequence by a nested
  \<open>spriteFrame\<close> subtree with one keyframe record that refers to index 0. It is
  extracted without an error as exactly one clip, named \<open>run\<close>, of duration 1.5 (and
  sample rate 24), with exactly one track, whose only keyframe has the identifier
  \<open>tex_a\<close>.
\<close>

theorem parse_animation_clip_run:
  "parse_animation_clip
     (JList [JInt 1, JList [JStr ''tex_a''],
        JList [JInt 0, JStr ''run'', JFloat (Fin (3 / 2)), JInt 24,
          JList [JStr ''spriteFrame'',
            JList [JDict [(''frame'', JInt 0)], JStr ''value'', JInt 6, JInt 0]]]])
   = Inr [\<lparr>clip_name = ''run'', clip_duration = Fin (3 / 2), clip_sample = Some (Fin 24),
           clip_tracks = [\<lparr>track_type = ''spriteFrame'',
             track_frames = [\<lparr>kf_time = Some (Fin 0), kf_uuid = Some ''tex_a'',
                              kf_uuid_index = Some 0\<rparr>]\<rparr>]\<rparr>]"
  by code_simp

text \<open>
  The keyframe record has to stand below the header's own sequence: \<open>find_clips\<close>
  hands the clip a header opens to the children of that node only. When the header
  is a complete sequence and the \<open>spriteFrame\<close> subtree follows it as a sibling, the
  clip is extracted with no track.
\<close>

lemma parse_animation_clip_sibling:
  "parse_animation_clip
     (JList [JList [JInt 0, JStr ''run'', JFloat (Fin (3 / 2)), JInt 24], JList [JStr ''tex_a''],
        JList [JStr ''spriteFrame'',
          JList [JDict [(''frame'', JInt 0)], JStr ''value'', JInt 6, JInt 0]]])
   = Inr [\<lparr>clip_name = ''run'', clip_duration = Fin (3 / 2), clip_sample = Some (Fin 24),
           clip_tracks = []\<rparr>]"
  by code_simp

section \<open>WEBP dimensions, by kind of chunk\<close>

lemma from_bytes_little_sum:
  "off + n \<le> length buf \<Longrightarrow>
   from_bytes_little (py_slice buf off (off + n)) = (\<Sum>i<n. uint (buf ! (off + i)) * 256 ^ i)"
proof (induction n arbitrary: off)
  case 0
  then show ?case by (simp add: py_slice_def)
next
  case (Suc n)
  then have lt: "off < length buf" and le: "Suc off + n \<le> length buf" by simp_all
  have sl: "py_slice buf off (off + Suc n) = buf ! off # py_slice buf (Suc off) (Suc off + n)"
    using lt by (simp add: py_slice_def Cons_nth_drop_Suc take_Suc_Cons [symmetric] del: take_Suc_Cons)
  have "(\<Sum>i<Suc n. uint (buf ! (off + i)) * 256 ^ i)
      = uint (buf ! off) + (\<Sum>i<n. uint (buf ! (off + Suc i)) * 256 ^ Suc i)"
    by (subst sum.lessThan_Suc_shift) (simp add: comp_def)
  also have "(\<Sum>i<n. uint (buf ! (off + Suc i)) * 256 ^ Suc i)
      = 256 * (\<Sum>i<n. uint (buf ! (Suc off + i)) * 256 ^ i)"
    by (simp add: sum_distrib_left mult.assoc mult.left_commute)
  finally have "(\<Sum>i<Suc n. uint (buf ! (off + i)) * 256 ^ i)
      = uint (buf ! off) + 256 * (\<Sum>i<n. uint (buf ! (Suc off + i)) * 256 ^ i)" .
  with Suc.IH [OF le] sl show ?case by (simp only: from_bytes_little.simps)
qed

lemma from_bytes_little_range:
  assumes "a \<le> b" and "b \<le> length buf"
  shows "from_bytes_little (py_slice buf a b) = (\<Sum>i<b - a. uint (buf ! (a + i)) * 256 ^ i)"
proof -
  from assms have "a + (b - a) \<le> length buf" by simp
  from from_bytes_little_sum [OF this] assms(1) show ?thesis by simp
qed

lemma and_3FFF: "(x :: int) AND 0x3FFF = x mod 2 ^ 14"
proof -
  have e: "(mask 14 :: int) = 0x3FFF" by (simp add: mask_eq_exp_minus_1)
  have "x AND mask 14 = x mod 2 ^ 14"
    by (simp only: take_bit_eq_mask [symmetric] take_bit_eq_mod)
  then show ?thesis unfolding e .
qed

lemma vp8l_width:
  assumes "0 \<le> b1" "b1 < 256" "0 \<le> b2"
  shows "(b1 :: int) OR push_bit 8 (b2 AND 0x3F) = (b1 + b2 * 256 + b3 * 65536 + b4 * 16777216) mod 2 ^ 14"
proof -
  have e: "(mask 6 :: int) = 0x3F" by (simp add: mask_eq_exp_minus_1)
  have "b2 AND mask 6 = b2 mod 2 ^ 6"
    by (simp only: take_bit_eq_mask [symmetric] take_bit_eq_mod)
  then have a: "b2 AND 0x3F = b2 mod 64" unfolding e by simp
  have t: "take_bit 8 b1 = b1" using assms by (simp add: take_bit_eq_mod)
  have "b1 OR push_bit 8 (b2 mod 64) = take_bit 8 b1 OR push_bit 8 (b2 mod 64)" by (simp add: t)
  also have "\<dots> = concat_bit 8 b1 (b2 mod 64)" by (simp add: concat_bit_def)
  also have "\<dots> = b1 + 256 * (b2 mod 64)" by (simp add: concat_bit_eq t push_bit_eq_mult)
  finally have l: "b1 OR push_bit 8 (b2 AND 0x3F) = b1 + 256 * (b2 mod 64)" by (simp add: a)
  define q r where "q = b2 div 64" and "r = b2 mod 64"
  have split: "b2 = 64 * q + r" by (simp add: q_def r_def)
  have r: "0 \<le> r" "r < 64" using assms by (simp_all add: r_def)
  have "b1 + b2 * 256 + b3 * 65536 + b4 * 16777216
      = (b1 + 256 * r) + 16384 * (q + 4 * b3 + 1024 * b4)"
    unfolding split by (simp add: algebra_simps)
  then have "(b1 + b2 * 256 + b3 * 65536 + b4 * 16777216) mod 16384 = (b1 + 256 * r) mod 16384"
    by (simp only: mod_mult_self2)
  moreover have "0 \<le> b1 + 256 * r" "b1 + 256 * r < 16384" using assms r by linarith+
  ultimately have "(b1 + b2 * 256 + b3 * 65536 + b4 * 16777216) mod 16384 = b1 + 256 * (b2 mod 64)"
    by (simp add: r_def)
  with l show ?thesis by simp
qed


lemma webp_chunks_result:
  "webp_chunks buf off = Some (w, h) \<Longrightarrow>
   \<exists>p\<ge>off. p + 8 \<le> length buf \<and>
     (py_slice buf p (p + 4) = bytes_of ''VP8X''
        \<and> w = from_bytes_little (py_slice buf (p + 12) (p + 15)) + 1
        \<and> h = from_bytes_little (py_slice buf (p + 15) (p + 18)) + 1
      \<or> py_slice buf p (p + 4) = bytes_of ''VP8 ''
        \<and> w = from_bytes_little (py_slice buf (p + 14) (p + 16)) AND 0x3FFF
        \<and> h = from_bytes_little (py_slice buf (p + 16) (p + 18)) AND 0x3FFF
      \<or> py_slice buf p (p + 4) = bytes_of ''VP8L''
        \<and> (\<exists>b1 b2 b3 b4. byte_at buf (p + 9) = Some b1 \<and> byte_at buf (p + 10) = Some b2
              \<and> byte_at buf (p + 11) = Some b3 \<and> byte_at buf (p + 12) = Some b4
              \<and> w = (b1 OR push_bit 8 (b2 AND 0x3F)) + 1))"
proof (induction "length buf - off" arbitrary: off rule: less_induct)
  case less
  let ?next = "off + 8 + nat ((from_bytes_little (py_slice buf (off + 4) (off + 8)) + 1) AND NOT 1)"
  from less.prems have inb: "off + 8 \<le> length buf"
    by (subst (asm) webp_chunks.simps) (simp split: if_splits)
  have step: "webp_chunks buf ?next = Some (w, h) \<Longrightarrow> ?case"
  proof -
    assume a: "webp_chunks buf ?next = Some (w, h)"
    have "length buf - ?next < length buf - off" using inb by linarith
    from less.hyps [OF this a] obtain p where "p \<ge> ?next" and rest: "p + 8 \<le> length buf \<and>
     (py_slice buf p (p + 4) = bytes_of ''VP8X''
        \<and> w = from_bytes_little (py_slice buf (p + 12) (p + 15)) + 1
        \<and> h = from_bytes_little (py_slice buf (p + 15) (p + 18)) + 1
      \<or> py_slice buf p (p + 4) = bytes_of ''VP8 ''
        \<and> w = from_bytes_little (py_slice buf (p + 14) (p + 16)) AND 0x3FFF
        \<and> h = from_bytes_little (py_slice buf (p + 16) (p + 18)) AND 0x3FFF
      \<or> py_slice buf p (p + 4) = bytes_of ''VP8L''
        \<and> (\<exists>b1 b2 b3 b4. byte_at buf (p + 9) = Some b1 \<and> byte_at buf (p + 10) = Some b2
              \<and> byte_at buf (p + 11) = Some b3 \<and> byte_at buf (p + 12) = Some b4
              \<and> w = (b1 OR push_bit 8 (b2 AND 0x3F)) + 1))"
      by blast
    then have "p \<ge> off" by linarith
    with rest show ?case by blast
  qed
  have here: "(py_slice buf off (off + 4) = bytes_of ''VP8X''
        \<and> w = from_bytes_little (py_slice buf (off + 12) (off + 15)) + 1
        \<and> h = from_bytes_little (py_slice buf (off + 15) (off + 18)) + 1
      \<or> py_slice buf off (off + 4) = bytes_of ''VP8 ''
        \<and> w = from_bytes_little (py_slice buf (off + 14) (off + 16)) AND 0x3FFF
        \<and> h = from_bytes_little (py_slice buf (off + 16) (off + 18)) AND 0x3FFF
      \<or> py_slice buf off (off + 4) = bytes_of ''VP8L''
        \<and> (\<exists>b1 b2 b3 b4. byte_at buf (off + 9) = Some b1 \<and> byte_at buf (off + 10) = Some b2
              \<and> byte_at buf (off + 11) = Some b3 \<and> byte_at buf (off + 12) = Some b4
              \<and> w = (b1 OR push_bit 8 (b2 AND 0x3F)) + 1))
     \<Longrightarrow> ?case"
    using inb by blast
  from less.prems inb have
    "(py_slice buf off (off + 4) = bytes_of ''VP8X''
        \<and> w = from_bytes_little (py_slice buf (off + 12) (off + 15)) + 1
        \<and> h = from_bytes_little (py_slice buf (off + 15) (off + 18)) + 1
      \<or> py_slice buf off (off + 4) = bytes_of ''VP8 ''
        \<and> w = from_bytes_little (py_slice buf (off + 14) (off + 16)) AND 0x3FFF
        \<and> h = from_bytes_little (py_slice buf (off + 16) (off + 18)) AND 0x3FFF
      \<or> py_slice buf off (off + 4) = bytes_of ''VP8L''
        \<and> (\<exists>b1 b2 b3 b4. byte_at buf (off + 9) = Some b1 \<and> byte_at buf (off + 10) = Some b2
              \<and> byte_at buf (off + 11) = Some b3 \<and> byte_at buf (off + 12) = Some b4
              \<and> w = (b1 OR push_bit 8 (b2 AND 0x3F)) + 1))
     \<or> webp_chunks buf ?next = Some (w, h)"
    apply (subst (asm) webp_chunks.simps)
    apply (simp add: Let_def split: if_splits option.splits prod.splits)
    apply (auto simp: add.commute add.left_commute numeral_eq_Suc)
    done
  with step here show ?case by blast
qed

lemma byte_at_bounds: "byte_at buf i = Some b \<Longrightarrow> i < length buf \<and> b = uint (buf ! i) \<and> 0 \<le> b \<and> b < 256"
proof -
  assume a: "byte_at buf i = Some b"
  then have i: "i < length buf" and b: "b = uint (buf ! i)"
    by (simp_all add: byte_at_def split: if_splits)
  have "uint (buf ! i) < 2 ^ 8" using uint_lt2p [of "buf ! i"] by simp
  with i b show ?thesis by simp
qed

text \<open>
  C5, as the code has it. When \<open>read_webp_size\<close> reports a width and a height, they
  come from one chunk of the file, at an offset \<open>p\<close> from 12 on, of one of three kinds.
  For a \<open>VP8X\<close> chunk whose fields lie within the file, the width and the height are
  the two 24-bit fields of the format plus one. For a \<open>VP8\<close> chunk whose fields lie
  within the file, they are the two 14-bit fields themselves, with nothing added. For
  a \<open>VP8L\<close> chunk the width is the 14-bit width field plus one. (Nothing is said here
  of the height of a \<open>VP8L\<close> chunk, nor of fields cut off by the end of the file.)
\<close>

theorem read_webp_size_fields:
  assumes "read_webp_size buf = Some (w, h)"
  shows "\<exists>p\<ge>12. p + 8 \<le> length buf \<and>
     (py_slice buf p (p + 4) = bytes_of ''VP8X''
        \<and> (p + 18 \<le> length buf \<longrightarrow> spec_vp8x_fields buf (p + 8) = (Some (w - 1), Some (h - 1)))
      \<or> py_slice buf p (p + 4) = bytes_of ''VP8 ''
        \<and> (p + 18 \<le> length buf \<longrightarrow> spec_vp8_fields buf (p + 8) = (Some w, Some h))
      \<or> py_slice buf p (p + 4) = bytes_of ''VP8L''
        \<and> fst (spec_vp8l_fields buf (p + 8)) = Some (w - 1))"
proof -
  from assms have "webp_chunks buf 12 = Some (w, h)"
    by (simp add: read_webp_size_def split: if_splits)
  from webp_chunks_result [OF this] obtain p where p: "p \<ge> 12" "p + 8 \<le> length buf"
    and cases: "(py_slice buf p (p + 4) = bytes_of ''VP8X''
        \<and> w = from_bytes_little (py_slice buf (p + 12) (p + 15)) + 1
        \<and> h = from_bytes_little (py_slice buf (p + 15) (p + 18)) + 1
      \<or> py_slice buf p (p + 4) = bytes_of ''VP8 ''
        \<and> w = from_bytes_little (py_slice buf (p + 14) (p + 16)) AND 0x3FFF
        \<and> h = from_bytes_little (py_slice buf (p + 16) (p + 18)) AND 0x3FFF
      \<or> py_slice buf p (p + 4) = bytes_of ''VP8L''
        \<and> (\<exists>b1 b2 b3 b4. byte_at buf (p + 9) = Some b1 \<and> byte_at buf (p + 10) = Some b2
              \<and> byte_at buf (p + 11) = Some b3 \<and> byte_at buf (p + 12) = Some b4
              \<and> w = (b1 OR push_bit 8 (b2 AND 0x3F)) + 1))"
    by blast
  from cases consider
      (x) "py_slice buf p (p + 4) = bytes_of ''VP8X''"
          "w = from_bytes_little (py_slice buf (p + 12) (p + 15)) + 1"
          "h = from_bytes_little (py_slice buf (p + 15) (p + 18)) + 1"
    | (v) "py_slice buf p (p + 4) = bytes_of ''VP8 ''"
          "w = from_bytes_little (py_slice buf (p + 14) (p + 16)) AND 0x3FFF"
          "h = from_bytes_little (py_slice buf (p + 16) (p + 18)) AND 0x3FFF"
    | (l) b1 b2 b3 b4 where "py_slice buf p (p + 4) = bytes_of ''VP8L''"
          "byte_at buf (p + 9) = Some b1" "byte_at buf (p + 10) = Some b2"
          "byte_at buf (p + 11) = Some b3" "byte_at buf (p + 12) = Some b4"
          "w = (b1 OR push_bit 8 (b2 AND 0x3F)) + 1"
    by blast
  then have "py_slice buf p (p + 4) = bytes_of ''VP8X''
        \<and> (p + 18 \<le> length buf \<longrightarrow> spec_vp8x_fields buf (p + 8) = (Some (w - 1), Some (h - 1)))
      \<or> py_slice buf p (p + 4) = bytes_of ''VP8 ''
        \<and> (p + 18 \<le> length buf \<longrightarrow> spec_vp8_fields buf (p + 8) = (Some w, Some h))
      \<or> py_slice buf p (p + 4) = bytes_of ''VP8L''
        \<and> fst (spec_vp8l_fields buf (p + 8)) = Some (w - 1)"
  proof cases
    case x
    have "p + 18 \<le> length buf \<longrightarrow> spec_vp8x_fields buf (p + 8) = (Some (w - 1), Some (h - 1))"
    proof
      assume len: "p + 18 \<le> length buf"
      have f1: "from_bytes_little (py_slice buf (p + 12) (p + 15))
          = (\<Sum>i<3. uint (buf ! (p + 12 + i)) * 256 ^ i)"
        using from_bytes_little_range [of "p + 12" "p + 15" buf] len by simp
      have f2: "from_bytes_little (py_slice buf (p + 15) (p + 18))
          = (\<Sum>i<3. uint (buf ! (p + 15 + i)) * 256 ^ i)"
        using from_bytes_little_range [of "p + 15" "p + 18" buf] len by simp
      from len x(2,3) show "spec_vp8x_fields buf (p + 8) = (Some (w - 1), Some (h - 1))"
        unfolding f1 f2 by (simp add: spec_vp8x_fields_def spec_le_field_def add_ac)
    qed
    with x(1) show ?thesis by blast
  next
    case v
    have "p + 18 \<le> length buf \<longrightarrow> spec_vp8_fields buf (p + 8) = (Some w, Some h)"
    proof
      assume len: "p + 18 \<le> length buf"
      have f1: "from_bytes_little (py_slice buf (p + 14) (p + 16))
          = (\<Sum>i<2. uint (buf ! (p + 14 + i)) * 256 ^ i)"
        using from_bytes_little_range [of "p + 14" "p + 16" buf] len by simp
      have f2: "from_bytes_little (py_slice buf (p + 16) (p + 18))
          = (\<Sum>i<2. uint (buf ! (p + 16 + i)) * 256 ^ i)"
        using from_bytes_little_range [of "p + 16" "p + 18" buf] len by simp
      from len v(2,3) show "spec_vp8_fields buf (p + 8) = (Some w, Some h)"
        unfolding f1 f2 and_3FFF by (simp add: spec_vp8_fields_def spec_le_field_def add_ac)
    qed
    with v(1) show ?thesis by blast
  next
    case l
    note b = l(2-5) [THEN byte_at_bounds]
    have fld: "spec_le_field buf (p + 8 + 1) 4 = Some (b1 + b2 * 256 + b3 * 65536 + b4 * 16777216)"
      using b by (simp add: spec_le_field_def numeral_eq_Suc add_ac)
    have "b1 OR push_bit 8 (b2 AND 0x3F)
        = (b1 + b2 * 256 + b3 * 65536 + b4 * 16777216) mod 2 ^ 14"
      using b by (intro vp8l_width) simp_all
    with l(6) have "w - 1 = (b1 + b2 * 256 + b3 * 65536 + b4 * 16777216) mod 2 ^ 14" by simp
    then have "fst (spec_vp8l_fields buf (p + 8)) = Some (w - 1)"
      unfolding spec_vp8l_fields_def fld by simp
    with l(1) show ?thesis by blast
  qed
  with p show ?thesis by blast
qed


theorem read_webp_size_fields_witness:
  "read_webp_size (bytes_of ''RIFF'' @ [26, 0, 0, 0] @ bytes_of ''WEBP''
       @ bytes_of ''VP8L'' @ [5, 0, 0, 0] @ [0x2f, 15, 0xC0, 7, 0]) = Some (16, 32)
   \<and> spec_vp8l_fields (bytes_of ''RIFF'' @ [26, 0, 0, 0] @ bytes_of ''WEBP''
       @ bytes_of ''VP8L'' @ [5, 0, 0, 0] @ [0x2f, 15, 0xC0, 7, 0]) 20 = (Some 15, Some 31)
   \<and> (\<exists>p\<ge>12. p + 8 \<le> length (bytes_of ''RIFF'' @ [26, 0, 0, 0] @ bytes_of ''WEBP''
       @ bytes_of ''VP8L'' @ [5, 0, 0, 0] @ [0x2f, 15, 0xC0, 7, 0 :: byte]))"
proof -
  let ?buf = "bytes_of ''RIFF'' @ [26, 0, 0, 0] @ bytes_of ''WEBP''
       @ bytes_of ''VP8L'' @ [5, 0, 0, 0] @ [0x2f, 15, 0xC0, 7, 0 :: byte]"
  have h: "read_webp_size ?buf = Some (16, 32)" by code_simp
  have f: "spec_vp8l_fields ?buf 20 = (Some 15, Some 31)" by code_simp
  from read_webp_size_fields [OF h] have "\<exists>p\<ge>12. p + 8 \<le> length ?buf" by blast
  with h f show ?thesis by blast
qed

text \<open>
  The claim C5 as the specification states it fails for the \<open>VP8\<close> kind: for a file whose
  \<open>VP8\<close> chunk holds the fields 16 and 32, the size reported is 16 by 32, not 17 by 33.
\<close>

theorem read_webp_size_vp8_counterexample:
  "read_webp_size (bytes_of ''RIFF'' @ [22, 0, 0, 0] @ bytes_of ''WEBP''
       @ bytes_of ''VP8 '' @ [10, 0, 0, 0] @ [0, 0, 0, 0x9d, 0x01, 0x2a, 16, 0, 32, 0]) = Some (16, 32)
   \<and> spec_vp8_fields (bytes_of ''RIFF'' @ [22, 0, 0, 0] @ bytes_of ''WEBP''
       @ bytes_of ''VP8 '' @ [10, 0, 0, 0] @ [0, 0, 0, 0x9d, 0x01, 0x2a, 16, 0, 32, 0]) 20
     = (Some 16, Some 32)"
  by code_simp

text \<open>
  The height of a \<open>VP8L\<close> chunk is left out of the theorem above because the source
  reads only twelve of its fourteen bits (the mask of the last byte is \<open>0x03\<close>): for
  the height field 4096 the height reported is 1.
\<close>

lemma read_webp_size_vp8l_height:
  "read_webp_size (bytes_of ''RIFF'' @ [26, 0, 0, 0] @ bytes_of ''WEBP''
       @ bytes_of ''VP8L'' @ [5, 0, 0, 0] @ [0x2f, 0, 0, 0, 4]) = Some (1, 1)
   \<and> spec_vp8l_fields (bytes_of ''RIFF'' @ [26, 0, 0, 0] @ bytes_of ''WEBP''
       @ bytes_of ''VP8L'' @ [5, 0, 0, 0] @ [0x2f, 0, 0, 0, 4]) 20 = (Some 0, Some 4096)"
  by code_simp

section \<open>Normalisation of rect, offset and size\<close>

lemma py_int_not_list: "py_int a = Inr x \<Longrightarrow> \<not> is_list a"
  by (cases a) simp_all

lemma py_int_finite_number:
  "is_number a \<Longrightarrow> a \<notin> {JFloat PosInf, JFloat NegInf, JFloat NaN} \<Longrightarrow> \<exists>n. py_int a = Inr n"
proof (cases a)
  case (JFloat f)
  assume "a \<notin> {JFloat PosInf, JFloat NegInf, JFloat NaN}"
  with JFloat show ?thesis by (cases f) simp_all
qed simp_all

text \<open>
  C8, as the code has it. For four values that \<open>int\<close> converts (every finite number
  does, see \<open>py_int_finite_number\<close>), \<open>parse_rect\<close> gives the same \<open>{x, y, w, h}\<close> for the
  flat sequence \<open>[a, b, c, d]\<close> and for the pair of pairs \<open>[[a, b], [c, d]]\<close>, and raises
  for neither; \<open>parse_pair\<close>, which normalises the offset and the original size, gives
  \<open>{x, y}\<close> for the flat sequence \<open>[a, b]\<close>.
\<close>

theorem parse_rect_both_encodings:
  assumes "py_int a = Inr x" and "py_int b = Inr y" and "py_int c = Inr w" and "py_int d = Inr h"
  shows "parse_rect (JList [a, b, c, d]) = Inr \<lparr>r_x = x, r_y = y, r_w = w, r_h = h\<rparr>
     \<and> parse_rect (JList [JList [a, b], JList [c, d]]) = Inr \<lparr>r_x = x, r_y = y, r_w = w, r_h = h\<rparr>
     \<and> parse_pair (JList [a, b]) = Inr \<lparr>p_x = x, p_y = y\<rparr>"
proof -
  from assms(1) have "\<not> is_list a" by (rule py_int_not_list)
  with assms show ?thesis
    by (simp add: parse_rect_def parse_pair_def elem1_def elem2_def py_bind_def py_index_def)
qed

theorem parse_rect_both_encodings_witness:
  "parse_rect (JList [JInt 2, JFloat (Fin (7 / 2)), JInt 16, JInt 8])
     = Inr \<lparr>r_x = 2, r_y = 3, r_w = 16, r_h = 8\<rparr>
   \<and> parse_rect (JList [JList [JInt 2, JFloat (Fin (7 / 2))], JList [JInt 16, JInt 8]])
     = Inr \<lparr>r_x = 2, r_y = 3, r_w = 16, r_h = 8\<rparr>
   \<and> parse_pair (JList [JInt 2, JFloat (Fin (7 / 2))]) = Inr \<lparr>p_x = 2, p_y = 3\<rparr>"
proof -
  have h1: "py_int (JInt 2) = Inr 2" by simp
  have h2: "py_int (JFloat (Fin (7 / 2))) = Inr 3" by code_simp
  have h3: "py_int (JInt 16) = Inr 16" by simp
  have h4: "py_int (JInt 8) = Inr 8" by simp
  show ?thesis by (rule parse_rect_both_encodings [OF h1 h2 h3 h4])
qed

text \<open>
  The claim C8 as the specification states it fails for the offset and the original
  size: \<open>parse_pair\<close> has no branch for a nested encoding, and on the pair of pairs
  \<open>[[0, 0], [16, 8]]\<close>, which \<open>parse_rect\<close> normalises, it raises \<open>TypeError\<close>.
\<close>

theorem parse_pair_nested_counterexample:
  "parse_pair (JList [JList [JInt 0, JInt 0], JList [JInt 16, JInt 8]]) = Inl TypeError
   \<and> parse_rect (JList [JList [JInt 0, JInt 0], JList [JInt 16, JInt 8]])
     = Inr \<lparr>r_x = 0, r_y = 0, r_w = 16, r_h = 8\<rparr>"
  by (simp add: parse_rect_def parse_pair_def elem1_def elem2_def py_bind_def py_index_def)

section \<open>Names that are taken\<close>














section \<open>The marker of explicit clips\<close>

text \<open>
  C10. A document whose text does not contain \<open>cc.AnimationClip\<close> leaves the files
  and the list of collected clips as they were, whatever \<open>json.loads\<close> would give for
  it: no clip of it is emitted, also when its tree has a clip header (as the tree of
  the witness has).
\<close>

theorem animations_step_needs_marker:
  assumes "\<not> sublist ''cc.AnimationClip'' (snd doc)"
  shows "animations_step loads anim_out doc st = Inr st"
  using assms by (simp add: animations_step_def)

theorem animations_step_needs_marker_witness:
  "\<not> sublist ''cc.AnimationClip'' ''[0, \"run\", 1]''
   \<and> parse_animation_clip (JList [JInt 0, JStr ''run'', JInt 1])
       = Inr [\<lparr>clip_name = ''run'', clip_duration = Fin 1, clip_sample = None, clip_tracks = []\<rparr>]
   \<and> animations_step [''[0, \"run\", 1]'' \<mapsto> JList [JInt 0, JStr ''run'', JInt 1]]
        ''out/animations'' (''import/a.json'', ''[0, \"run\", 1]'') ([], []) = Inr ([], [])"
proof -
  have h: "\<not> sublist ''cc.AnimationClip'' (snd (''import/a.json'', ''[0, \"run\", 1]''))"
    by code_simp
  have p: "parse_animation_clip (JList [JInt 0, JStr ''run'', JInt 1])
       = Inr [\<lparr>clip_name = ''run'', clip_duration = Fin 1, clip_sample = None, clip_tracks = []\<rparr>]"
    by code_simp
  from animations_step_needs_marker [OF h] h p show ?thesis by simp
qed

section \<open>Inferred sequences: what the count lets through\<close>

text \<open>
  C1. On the two examples of the specification the code does what the claim says:
  the names \<open>glow_01\<close>, \<open>glow_02\<close>, \<open>glow_03\<close>, \<open>glow_05\<close> give one clip for the base
  \<open>glow\<close> with the four members in the order of their suffixes, and \<open>star1\<close>, \<open>star2\<close>
  give none. The general rule of the claim does not hold of the code: the count of the
  source is never set back at a gap (\<open>consecutive = max(consecutive, 1)\<close> leaves it as
  it is), so it is one more than the number of neighbours that differ by one, not the
  length of the longest run. The names \<open>walk1\<close>, \<open>walk2\<close>, \<open>walk4\<close>, \<open>walk5\<close> have the
  suffixes 1, 2, 4, 5, whose longest consecutive run has length 2; the count is 3, and
  the group is kept.
\<close>

theorem guess_clips_examples:
  "guess_clips ''abcdef12'' [''glow_01'', ''glow_02'', ''glow_03'', ''glow_05'']
     = [\<lparr>gc_name = ''glow'', gc_length = 4,
          gc_frames = [\<lparr>gf_position = 0, gf_frame_name = ''glow_01''\<rparr>,
                       \<lparr>gf_position = 1, gf_frame_name = ''glow_02''\<rparr>,
                       \<lparr>gf_position = 2, gf_frame_name = ''glow_03''\<rparr>,
                       \<lparr>gf_position = 3, gf_frame_name = ''glow_05''\<rparr>],
          gc_source_atlas_uuid = ''abcdef12''\<rparr>]
   \<and> guess_clips ''abcdef12'' [''star1'', ''star2''] = []
   \<and> spec_longest_run [1, 2, 4, 5] = 2
   \<and> count_consecutive [1, 2, 4, 5] 1 = 3
   \<and> guess_clips ''abcdef12'' [''walk1'', ''walk2'', ''walk4'', ''walk5'']
     = [\<lparr>gc_name = ''walk'', gc_length = 4,
          gc_frames = [\<lparr>gf_position = 0, gf_frame_name = ''walk1''\<rparr>,
                       \<lparr>gf_position = 1, gf_frame_name = ''walk2''\<rparr>,
                       \<lparr>gf_position = 2, gf_frame_name = ''walk4''\<rparr>,
                       \<lparr>gf_position = 3, gf_frame_name = ''walk5''\<rparr>],
          gc_source_atlas_uuid = ''abcdef12''\<rparr>]"
  by code_simp

text \<open>
  The count is never below the longest run, so the code keeps every group the rule of
  the specification keeps, and more.
\<close>

lemma count_consecutive_mono: "c \<le> count_consecutive xs c"
proof (induction xs c rule: count_consecutive.induct)
  case (1 a b rest c)
  then show ?case by (auto split: if_splits)
qed simp_all

lemma run_from_le_count: "c \<ge> 1 \<Longrightarrow> run_from xs + c \<le> count_consecutive xs c + 1"
proof (induction xs c rule: count_consecutive.induct)
  case (1 a b rest c)
  show ?case
  proof (cases "b = a + 1")
    case True
    with "1.IH" "1.prems" show ?thesis by simp
  next
    case False
    have "c \<le> count_consecutive (b # rest) c" by (rule count_consecutive_mono)
    with False "1.prems" show ?thesis by (simp add: max_absorb1)
  qed
qed simp_all

lemma longest_run_le_count: "c \<ge> 1 \<Longrightarrow> spec_longest_run xs + c \<le> count_consecutive xs c + 1"
proof (induction xs arbitrary: c)
  case Nil
  then show ?case by simp
next
  case (Cons a rest)
  have r: "run_from (a # rest) + c \<le> count_consecutive (a # rest) c + 1"
    using Cons.prems by (rule run_from_le_count)
  have "spec_longest_run rest + c \<le> count_consecutive (a # rest) c + 1"
  proof (cases rest)
    case Nil
    with Cons.prems show ?thesis by simp
  next
    case (Cons b more)
    let ?c' = "if b = a + 1 then c + 1 else max c 1"
    have "c \<le> ?c'" by simp
    moreover have "?c' \<ge> 1" using Cons.prems by simp
    ultimately have "spec_longest_run rest + c \<le> count_consecutive rest ?c' + 1"
      using Cons.IH [of ?c'] by linarith
    with Cons show ?thesis by simp
  qed
  with r show ?case by simp
qed

lemma count_keeps_what_spec_keeps:
  "spec_longest_run xs \<le> count_consecutive xs 1"
  using longest_run_le_count [of 1 xs] by simp

section \<open>A sprite frame with a short rect\<close>

text \<open>
  C2. A failure on one item does interrupt the run. The document
  \<open>[1, ["abcdef12"], {"name": "f", "rect": [1, 2], "originalSize": [4, 4]}]\<close> has
  no skeleton bundle (nor has the other document) and one sprite frame, whose rect has two elements; \<open>parse_rect\<close>
  raises \<open>IndexError\<close> at \<open>rect[2]\<close>, nothing in \<open>main\<close> catches it, and the run
  ends there: the atlas of the well-formed document that comes with it, which is
  produced when that document stands alone, is not.
\<close>

theorem main_atlases_malformed_rect:
  "extract_skeleton_entries
     (JList [JInt 1, JList [JStr ''abcdef12''],
        JDict [(''name'', JStr ''f''), (''rect'', JList [JInt 1, JInt 2]),
               (''originalSize'', JList [JInt 4, JInt 4])]]) = []
   \<and> extract_skeleton_entries
     (JList [JInt 1, JList [JStr ''cdef3456''],
        JDict [(''name'', JStr ''g''), (''rect'', JList [JInt 0, JInt 0, JInt 4, JInt 4]),
               (''originalSize'', JList [JInt 4, JInt 4])]]) = []
   \<and> main_atlases
     [(''import/a.json'',
       JList [JInt 1, JList [JStr ''abcdef12''],
         JDict [(''name'', JStr ''f''), (''rect'', JList [JInt 1, JInt 2]),
                (''originalSize'', JList [JInt 4, JInt 4])]]),
      (''import/b.json'',
       JList [JInt 1, JList [JStr ''cdef3456''],
         JDict [(''name'', JStr ''g''), (''rect'', JList [JInt 0, JInt 0, JInt 4, JInt 4]),
                (''originalSize'', JList [JInt 4, JInt 4])]])] = Inl IndexError
   \<and> main_atlases
     [(''import/b.json'',
       JList [JInt 1, JList [JStr ''cdef3456''],
         JDict [(''name'', JStr ''g''), (''rect'', JList [JInt 0, JInt 0, JInt 4, JInt 4]),
                (''originalSize'', JList [JInt 4, JInt 4])]])]
     = Inr [(''cdef3456'',
             [(JStr ''g'', \<lparr>pf_rotated = False, pf_frame = ''{0,0},{4,4}'',
                              pf_offset = ''{0,0}'', pf_sourceSize = ''{4,4}''\<rparr>)])]"
  by code_simp

end
